theory Spec2Isabelle
  imports Complex_Main "HOL-Library.Log_Nat"
begin

section \<open>JavaScript values used by the cart core\<close>

text \<open>
  A property read in JavaScript yields \<open>undefined\<close> (also when the property is missing),
  \<open>null\<close>, or a value. The cart core tests such reads with \<open>!== undefined\<close>, with
  \<open>||\<close> and with \<open>>=\<close>, so the three cases are kept apart.
\<close>

datatype 'a js = Undefined | Null | Val 'a

text \<open>\<open>ToNumber\<close> on a possibly absent integer: \<open>undefined\<close> is NaN (here \<open>None\<close>),
  \<open>null\<close> is 0.\<close>

fun to_number :: "int js \<Rightarrow> int option" where
  "to_number Undefined = None"
| "to_number Null = Some 0"
| "to_number (Val n) = Some n"

text \<open>The relational operators \<open>a >= b\<close> and \<open>a <= b\<close>: false as soon as one side is NaN.\<close>

definition js_ge :: "int js \<Rightarrow> int js \<Rightarrow> bool" where
  "js_ge a b =
     (case to_number a of
        None \<Rightarrow> False
      | Some x \<Rightarrow> (case to_number b of None \<Rightarrow> False | Some y \<Rightarrow> y \<le> x))"

definition js_le :: "int js \<Rightarrow> int js \<Rightarrow> bool" where
  "js_le a b =
     (case to_number a of
        None \<Rightarrow> False
      | Some x \<Rightarrow> (case to_number b of None \<Rightarrow> False | Some y \<Rightarrow> x \<le> y))"

text \<open>\<open>detail || fallback\<close> on strings: the empty string and an absent value are falsy.\<close>

definition or_else :: "string option \<Rightarrow> string \<Rightarrow> string" where
  "or_else d fallback = (case d of None \<Rightarrow> fallback | Some s \<Rightarrow> if s = [] then fallback else s)"

text \<open>Decimal rendering of a non-negative integer, as string concatenation does with
  the value of \<open>Date.now()\<close>.\<close>

fun dec_str :: "nat \<Rightarrow> string" where
  "dec_str n =
     (if n < 10 then [''0123456789'' ! n]
      else dec_str (n div 10) @ [''0123456789'' ! (n mod 10)])"

declare dec_str.simps [simp del]

section \<open>The arithmetic of JavaScript numbers\<close>












section \<open>Data model\<close>

text \<open>A product as the backend serves it: \<open>{ id, name, price, stock, available_stock }\<close>.
  A price is kept as the rational that the number denotes, stock figures as integers that
  may be absent.\<close>

record product =
  prod_id :: int
  name :: string
  price :: rat
  stock :: "int js"
  available_stock :: "int js"

text \<open>A cart row of the backend: \<open>{ id, product_id, quantity, product }\<close>.\<close>

record backend_row =
  row_id :: int
  product_id :: int
  row_quantity :: int
  row_product :: product

text \<open>A cart item of the client: \<open>{ id, productId, quantity, productDetails }\<close>; \<open>id\<close> is the
  backend's cart line id.\<close>

record cart_item =
  item_id :: int
  productId :: int
  quantity :: int
  productDetails :: product

record cart_state =
  items :: "cart_item list"
  loading :: bool
  error :: "string option"

text \<open>Actions by their \<open>type\<close> tag. The payload of \<open>SET_CART\<close> is an object whose \<open>items\<close>
  property is read; the payload of \<open>SET_ERROR\<close> is stored as it is (\<open>None\<close> is \<open>null\<close>).
  \<open>OTHER\<close> stands for every unrecognised tag.\<close>

datatype action =
    SET_CART "cart_item list js"
  | SET_LOADING bool
  | SET_ERROR "string option"
  | OTHER string

definition initial_state :: cart_state where
  "initial_state = \<lparr>items = [], loading = False, error = None\<rparr>"

section \<open>SessionIdentity: getCartId\<close>

text \<open>\<open>localStorage\<close> is a map from keys to strings; \<open>getItem\<close> of an absent key is \<open>null\<close>.
  The two sources of nondeterminism are parameters: \<open>rnd\<close> is the string
  \<open>Math.random().toString(36)\<close> and \<open>now\<close> is \<open>Date.now()\<close>. The function returns the
  storage after the call and the identifier.\<close>

type_synonym storage = "string \<rightharpoonup> string"

definition new_cart_id :: "string \<Rightarrow> nat \<Rightarrow> string" where
  "new_cart_id rnd now = ''cart-'' @ take 9 (drop 2 rnd) @ ''-'' @ dec_str now"

text \<open>\<open>if (!cartId)\<close>: the test holds for \<open>null\<close> (no entry) and for the empty string;
  any other stored string is returned as it is and the storage is not written.\<close>

definition getCartId :: "storage \<Rightarrow> string \<Rightarrow> nat \<Rightarrow> storage \<times> string" where
  "getCartId ls rnd now =
     (let fresh = (ls(''cart-session-id'' \<mapsto> new_cart_id rnd now), new_cart_id rnd now) in
      case ls ''cart-session-id'' of
        None \<Rightarrow> fresh
      | Some cartId \<Rightarrow> if cartId = [] then fresh else (ls, cartId))"

section \<open>CartStore: cartReducer\<close>

text \<open>\<open>action.payload.items || []\<close>: an array is truthy, \<open>undefined\<close> and \<open>null\<close> are not.\<close>

fun items_or_empty :: "cart_item list js \<Rightarrow> cart_item list" where
  "items_or_empty (Val xs) = xs"
| "items_or_empty Undefined = []"
| "items_or_empty Null = []"

fun cartReducer :: "cart_state \<Rightarrow> action \<Rightarrow> cart_state" where
  "cartReducer state (SET_CART payload_items) =
     state\<lparr>items := items_or_empty payload_items, loading := False, error := None\<rparr>"
| "cartReducer state (SET_LOADING payload) = state\<lparr>loading := payload\<rparr>"
| "cartReducer state (SET_ERROR payload) = state\<lparr>error := payload, loading := False\<rparr>"
| "cartReducer state (OTHER t) = state"

section \<open>SyncEngine\<close>

subsection \<open>The network and the observable effects\<close>

datatype request =
    GET_cart string
  | POST_item string int int
  | DELETE_item string int
  | PUT_item string int int int
  | DELETE_cart string

text \<open>A JSON body as far as the client reads it: the \<open>items\<close> of a cart and the \<open>detail\<close> of
  an error; \<open>response.json()\<close> may also reject with a message.\<close>

record json_obj =
  json_items :: "backend_row list js"
  json_detail :: "string option"

datatype body = BadJson string | Json json_obj

text \<open>\<open>fetch\<close> either rejects (network failure, with the error's message) or resolves to a
  response with its \<open>ok\<close> flag and body.\<close>

datatype response = Rejected string | Response bool body

type_synonym network = "request \<Rightarrow> response"

text \<open>What an operation does, in program order.\<close>

datatype effect =
    Dispatch action
  | Fetch request
  | Alert string
  | ConsoleError string

fun apply_effect :: "cart_state \<Rightarrow> effect \<Rightarrow> cart_state" where
  "apply_effect s (Dispatch a) = cartReducer s a"
| "apply_effect s (Fetch r) = s"
| "apply_effect s (Alert m) = s"
| "apply_effect s (ConsoleError m) = s"

definition run :: "cart_state \<Rightarrow> effect list \<Rightarrow> cart_state" where
  "run s es = foldl apply_effect s es"

fun dispatched :: "effect list \<Rightarrow> action list" where
  "dispatched [] = []"
| "dispatched (Dispatch a # es) = a # dispatched es"
| "dispatched (e # es) = dispatched es"

fun requests :: "effect list \<Rightarrow> request list" where
  "requests [] = []"
| "requests (Fetch r # es) = r # requests es"
| "requests (e # es) = requests es"

fun alerts :: "effect list \<Rightarrow> string list" where
  "alerts [] = []"
| "alerts (Alert m # es) = m # alerts es"
| "alerts (e # es) = alerts es"

subsection \<open>loadCart\<close>

definition convert_row :: "backend_row \<Rightarrow> cart_item" where
  "convert_row r =
     \<lparr>item_id = row_id r, productId = product_id r, quantity = row_quantity r,
      productDetails =
        \<lparr>prod_id = prod_id (row_product r), name = name (row_product r),
         price = price (row_product r), stock = stock (row_product r),
         available_stock = available_stock (row_product r)\<rparr>\<rparr>"

text \<open>The message of the TypeError that \<open>cartData.items.map\<close> raises when \<open>items\<close> is
  \<open>undefined\<close> (also when the body has no such property) or \<open>null\<close>, in the wording of V8;
  the quote character is \<open>CHR 0x27\<close>.\<close>

definition no_items_message :: "string \<Rightarrow> string" where
  "no_items_message what =
     ''Cannot read properties of '' @ what @ '' (reading '' @ [CHR 0x27] @ ''map'' @ [CHR 0x27]
       @ '')''"

text \<open>The body of the \<open>try\<close> of loadCart after the request was sent: the thrown error's
  message on the left, the converted items on the right.\<close>

definition load_result :: "response \<Rightarrow> string + cart_item list" where
  "load_result resp =
     (case resp of
        Rejected m \<Rightarrow> Inl m
      | Response ok b \<Rightarrow>
          if \<not> ok then Inl ''Failed to load cart''
          else (case b of
                  BadJson m \<Rightarrow> Inl m
                | Json cartData \<Rightarrow>
                    (case json_items cartData of
                       Undefined \<Rightarrow> Inl (no_items_message ''undefined'')
                     | Null \<Rightarrow> Inl (no_items_message ''null'')
                     | Val rows \<Rightarrow> Inr (map convert_row rows))))"

definition loadCart :: "string \<Rightarrow> network \<Rightarrow> effect list" where
  "loadCart cartId net =
     [Dispatch (SET_LOADING True), Fetch (GET_cart cartId)] @
     (case load_result (net (GET_cart cartId)) of
        Inr its \<Rightarrow> [Dispatch (SET_CART (Val its))]
      | Inl m \<Rightarrow> [ConsoleError ''Failed to load cart:'', Dispatch (SET_ERROR (Some m))])"

subsection \<open>addToCart\<close>

text \<open>The message thrown on a response that is not ok: \<open>errorData.detail || fallback\<close>, or the
  message of the rejected \<open>response.json()\<close>.\<close>

definition detail_message :: "body \<Rightarrow> string \<Rightarrow> string" where
  "detail_message b fallback =
     (case b of BadJson m \<Rightarrow> m | Json errorData \<Rightarrow> or_else (json_detail errorData) fallback)"

definition addToCart :: "string \<Rightarrow> network \<Rightarrow> product \<Rightarrow> int option \<Rightarrow> effect list" where
  "addToCart cartId net p quantity_arg =
     (let q = (case quantity_arg of None \<Rightarrow> 1 | Some k \<Rightarrow> k);
          req = POST_item cartId (prod_id p) q;
          catch = (\<lambda>m. [ConsoleError ''Failed to add to cart:'', Dispatch (SET_ERROR (Some m)),
                         Alert (''Error: '' @ m)])
      in [Dispatch (SET_LOADING True), Fetch req] @
         (case net req of
            Rejected m \<Rightarrow> catch m
          | Response ok b \<Rightarrow>
              if \<not> ok then catch (detail_message b ''Failed to add to cart'')
              else loadCart cartId net))"

subsection \<open>removeFromCart\<close>

definition removeFromCart :: "cart_state \<Rightarrow> string \<Rightarrow> network \<Rightarrow> int \<Rightarrow> effect list" where
  "removeFromCart state cartId net pid =
     (case find (\<lambda>item. productId item = pid) (items state) of
        None \<Rightarrow> []
      | Some item \<Rightarrow>
          (let req = DELETE_item cartId (item_id item);
               catch = (\<lambda>m. [ConsoleError ''Failed to remove from cart:'', Alert (''Error: '' @ m)])
           in Fetch req #
              (case net req of
                 Rejected m \<Rightarrow> catch m
               | Response ok b \<Rightarrow>
                   if \<not> ok then catch ''Failed to remove from cart''
                   else loadCart cartId net)))"

subsection \<open>updateQuantity\<close>

definition updateQuantity :: "cart_state \<Rightarrow> string \<Rightarrow> network \<Rightarrow> int \<Rightarrow> int \<Rightarrow> effect list" where
  "updateQuantity state cartId net pid q =
     (case find (\<lambda>item. productId item = pid) (items state) of
        None \<Rightarrow> []
      | Some item \<Rightarrow>
          if q \<le> 0 then removeFromCart state cartId net pid
          else
            (let req = PUT_item cartId (item_id item) pid q;
                 catch = (\<lambda>m. [ConsoleError ''Failed to update quantity:'', Alert (''Error: '' @ m)])
             in Fetch req #
                (case net req of
                   Rejected m \<Rightarrow> catch m
                 | Response ok b \<Rightarrow>
                     if \<not> ok then catch (detail_message b ''Failed to update quantity'')
                     else loadCart cartId net)))"

subsection \<open>clearCart\<close>

definition clearCart :: "string \<Rightarrow> network \<Rightarrow> effect list" where
  "clearCart cartId net =
     (let req = DELETE_cart cartId;
          catch = (\<lambda>m. [ConsoleError ''Failed to clear cart:'', Alert (''Error: '' @ m)])
      in Fetch req #
         (case net req of
            Rejected m \<Rightarrow> catch m
          | Response ok b \<Rightarrow>
              if \<not> ok then catch ''Failed to clear cart''
              else [Dispatch (SET_CART (Val []))]))"

section \<open>DerivedView\<close>





definition getProductQuantityInCart :: "cart_state \<Rightarrow> int \<Rightarrow> int" where
  "getProductQuantityInCart state pid =
     (case find (\<lambda>item. productId item = pid) (items state) of
        Some item \<Rightarrow> quantity item
      | None \<Rightarrow> 0)"

definition getAvailableStock :: "product \<Rightarrow> int js" where
  "getAvailableStock p = (if available_stock p \<noteq> Undefined then available_stock p else stock p)"

definition canAddToCart :: "product \<Rightarrow> int option \<Rightarrow> bool" where
  "canAddToCart p quantity_arg =
     (let q = (case quantity_arg of None \<Rightarrow> 1 | Some k \<Rightarrow> k);
          availableStock = getAvailableStock p
      in js_ge availableStock (Val q))"

section \<open>The loading-first test and example inputs\<close>

text \<open>The first effect of an operation is the dispatch of \<open>SET_LOADING(true)\<close>.\<close>

definition starts_with_loading :: "effect list \<Rightarrow> bool" where
  "starts_with_loading es =
     (case es of Dispatch (SET_LOADING True) # rest \<Rightarrow> True | _ \<Rightarrow> False)"

text \<open>A backend that answers every request with success and an empty cart, and one that
  answers every request with an error status and no detail.\<close>

definition ok_net :: network where
  "ok_net = (\<lambda>r. Response True (Json \<lparr>json_items = Val [], json_detail = None\<rparr>))"

definition failing_net :: network where
  "failing_net = (\<lambda>r. Response False (Json \<lparr>json_items = Undefined, json_detail = None\<rparr>))"

definition demo_product :: product where
  "demo_product =
     \<lparr>prod_id = 1, name = ''Lamp'', price = 10, stock = Val 5, available_stock = Val 5\<rparr>"

definition demo_item :: cart_item where
  "demo_item = \<lparr>item_id = 7, productId = 1, quantity = 2, productDetails = demo_product\<rparr>"

definition demo_state :: cart_state where
  "demo_state = \<lparr>items = [demo_item], loading = False, error = None\<rparr>"


section \<open>Helper lemmas\<close>

subsection \<open>Sums in order, exact sums, and binary64 on integers\<close>



















subsection \<open>Session identifiers and runs\<close>

lemma new_cart_id_not_empty: "new_cart_id r t \<noteq> []"
  by (simp add: new_cart_id_def)

lemma dec_str_999: "dec_str 999 = ''999''"
  by code_simp

lemma run_Nil: "run s [] = s"
  by (simp add: run_def)

subsection \<open>What loadCart and addToCart do\<close>

lemma loadCart_starts_with_loading: "starts_with_loading (loadCart cid net)"
  by (simp add: loadCart_def starts_with_loading_def)

lemma addToCart_starts_with_loading: "starts_with_loading (addToCart cid net p q)"
  by (simp add: addToCart_def starts_with_loading_def Let_def)

lemma loadCart_failure_sets_error:
  assumes "load_result (net (GET_cart cid)) = Inl m"
  shows "loadCart cid net =
           [Dispatch (SET_LOADING True), Fetch (GET_cart cid),
            ConsoleError ''Failed to load cart:'', Dispatch (SET_ERROR (Some m))]"
    and "run s (loadCart cid net) = s\<lparr>loading := False, error := Some m\<rparr>"
  using assms by (simp_all add: loadCart_def run_def)

lemma addToCart_failure_sets_error:
  assumes "net (POST_item cid (prod_id p) k) = Response False (Json \<lparr>json_items = its, json_detail = d\<rparr>)"
  shows "dispatched (addToCart cid net p (Some k)) =
           [SET_LOADING True, SET_ERROR (Some (or_else d ''Failed to add to cart''))]"
    and "alerts (addToCart cid net p (Some k)) = [''Error: '' @ or_else d ''Failed to add to cart'']"
    and "requests (addToCart cid net p (Some k)) = [POST_item cid (prod_id p) k]"
    and "error (run s (addToCart cid net p (Some k))) = Some (or_else d ''Failed to add to cart'')"
  using assms by (simp_all add: addToCart_def run_def Let_def detail_message_def)

subsection \<open>What the other three operations do on a failed request\<close>

lemma clearCart_never_loading: "SET_LOADING b \<notin> set (dispatched (clearCart cid net))"
  by (simp add: clearCart_def Let_def split: response.splits)

lemma clearCart_failure_no_dispatch:
  assumes "net (DELETE_cart cid) = Rejected m \<or> (\<exists>b. net (DELETE_cart cid) = Response False b)"
  shows "dispatched (clearCart cid net) = []" and "run s (clearCart cid net) = s"
  using assms by (auto simp: clearCart_def Let_def run_def)

lemma removeFromCart_failure_no_dispatch:
  assumes "find (\<lambda>item. productId item = p) (items s) = Some it"
    and "net (DELETE_item cid (item_id it)) = Rejected m
         \<or> (\<exists>b. net (DELETE_item cid (item_id it)) = Response False b)"
  shows "dispatched (removeFromCart s cid net p) = []" and "run s (removeFromCart s cid net p) = s"
  using assms by (auto simp: removeFromCart_def Let_def run_def)

lemma updateQuantity_failure_no_dispatch:
  assumes "find (\<lambda>item. productId item = p) (items s) = Some it" and "0 < q"
    and "net (PUT_item cid (item_id it) p q) = Rejected m
         \<or> (\<exists>b. net (PUT_item cid (item_id it) p q) = Response False b)"
  shows "dispatched (updateQuantity s cid net p q) = []" and "run s (updateQuantity s cid net p q) = s"
  using assms by (auto simp: updateQuantity_def Let_def run_def)

section \<open>Properties of the cart core\<close>

text \<open>
  C1: every one of the five operations dispatches \<open>SET_LOADING(true)\<close> before its network
  step, so the first action it dispatches is \<open>SET_LOADING\<close> with payload true.
  \<open>loadCart\<close> and \<open>addToCart\<close> do (lemmas \<open>loadCart_starts_with_loading\<close> and
  \<open>addToCart_starts_with_loading\<close>); the other three do not. Evaluated on a backend that
  answers every request with success: \<open>clearCart\<close> sends its request first and its only
  dispatch is \<open>SET_CART\<close>; \<open>removeFromCart\<close> of a product in the cart sends its DELETE
  before any dispatch, and \<open>SET_LOADING(true)\<close> comes only from the \<open>loadCart\<close> that follows.
\<close>

theorem clearCart_dispatches_SET_CART_first:
  "clearCart ''cart-abc123-999'' ok_net =
     [Fetch (DELETE_cart ''cart-abc123-999''), Dispatch (SET_CART (Val []))]
   \<and> dispatched (clearCart ''cart-abc123-999'' ok_net) = [SET_CART (Val [])]
   \<and> \<not> starts_with_loading (clearCart ''cart-abc123-999'' ok_net)
   \<and> removeFromCart demo_state ''cart-abc123-999'' ok_net 1 =
        [Fetch (DELETE_item ''cart-abc123-999'' 7), Dispatch (SET_LOADING True),
         Fetch (GET_cart ''cart-abc123-999''), Dispatch (SET_CART (Val []))]
   \<and> \<not> starts_with_loading (removeFromCart demo_state ''cart-abc123-999'' ok_net 1)"
  by (simp add: clearCart_def removeFromCart_def loadCart_def load_result_def ok_net_def
      starts_with_loading_def demo_state_def demo_item_def)

text \<open>
  C2: in every operation a response that is not ok, or a network failure, leads to a
  dispatched \<open>SET_ERROR\<close>, so that the state has an error afterwards, besides the alert.
  \<open>addToCart\<close> does both and \<open>loadCart\<close> dispatches \<open>SET_ERROR\<close> (lemmas
  \<open>addToCart_failure_sets_error\<close> and \<open>loadCart_failure_sets_error\<close>); the \<open>catch\<close> blocks of
  the other three only log and alert. Evaluated with product 1 in the cart and a backend
  that answers the DELETE with an error status: \<open>removeFromCart(1)\<close> alerts, dispatches
  nothing, and the error of the state stays \<open>null\<close>.
\<close>

theorem removeFromCart_failure_sets_no_error:
  "removeFromCart demo_state ''cart-abc123-999'' failing_net 1 =
     [Fetch (DELETE_item ''cart-abc123-999'' 7), ConsoleError ''Failed to remove from cart:'',
      Alert ''Error: Failed to remove from cart'']
   \<and> dispatched (removeFromCart demo_state ''cart-abc123-999'' failing_net 1) = []
   \<and> error (run demo_state (removeFromCart demo_state ''cart-abc123-999'' failing_net 1)) = None"
  by (simp add: removeFromCart_def failing_net_def demo_state_def demo_item_def run_def)

text \<open>
  C3: for every product id, cart state and backend, \<open>updateQuantity(p, q)\<close> with \<open>q \<le> 0\<close>
  has exactly the effects of \<open>removeFromCart(p)\<close>: the same resulting state, the same
  dispatched actions and the same requests, also when the cart has no line for \<open>p\<close>.
\<close>

theorem updateQuantity_nonpositive_is_removeFromCart:
  assumes "q \<le> 0"
  shows "updateQuantity s cid net p q = removeFromCart s cid net p
    \<and> run s (updateQuantity s cid net p q) = run s (removeFromCart s cid net p)
    \<and> dispatched (updateQuantity s cid net p q) = dispatched (removeFromCart s cid net p)
    \<and> requests (updateQuantity s cid net p q) = requests (removeFromCart s cid net p)"
proof -
  have "updateQuantity s cid net p q = removeFromCart s cid net p"
  proof (cases "find (\<lambda>item. productId item = p) (items s)")
    case None
    then show ?thesis by (simp add: updateQuantity_def removeFromCart_def)
  next
    case (Some item)
    with assms show ?thesis by (simp add: updateQuantity_def)
  qed
  then show ?thesis by simp
qed

theorem updateQuantity_nonpositive_is_removeFromCart_witness:
  "(0::int) \<le> 0
   \<and> updateQuantity demo_state ''cart-abc123-999'' ok_net 1 0 =
       [Fetch (DELETE_item ''cart-abc123-999'' 7), Dispatch (SET_LOADING True),
        Fetch (GET_cart ''cart-abc123-999''), Dispatch (SET_CART (Val []))]
   \<and> items (run demo_state (updateQuantity demo_state ''cart-abc123-999'' ok_net 1 0)) = []
   \<and> updateQuantity demo_state ''cart-abc123-999'' ok_net 2 (- 3) = []"
proof -
  have le: "(0::int) \<le> 0" "(- 3::int) \<le> 0" by simp_all
  have r1: "removeFromCart demo_state ''cart-abc123-999'' ok_net 1 =
       [Fetch (DELETE_item ''cart-abc123-999'' 7), Dispatch (SET_LOADING True),
        Fetch (GET_cart ''cart-abc123-999''), Dispatch (SET_CART (Val []))]"
    by (simp add: removeFromCart_def loadCart_def load_result_def ok_net_def
        demo_state_def demo_item_def)
  have r2: "removeFromCart demo_state ''cart-abc123-999'' ok_net 2 = []"
    by (simp add: removeFromCart_def demo_state_def demo_item_def)
  show ?thesis
    using updateQuantity_nonpositive_is_removeFromCart [OF le(1), of demo_state "''cart-abc123-999''" ok_net 1]
      updateQuantity_nonpositive_is_removeFromCart [OF le(2), of demo_state "''cart-abc123-999''" ok_net 2]
    by (simp add: r1 r2 run_def)
qed

text \<open>
  C4: \<open>removeFromCart\<close> of a product id that no item of the cart carries does nothing: no
  request, no dispatch, no alert, and the state is unchanged.
\<close>

theorem removeFromCart_absent_is_noop:
  assumes "\<forall>item \<in> set (items s). productId item \<noteq> p"
  shows "removeFromCart s cid net p = []
    \<and> run s (removeFromCart s cid net p) = s
    \<and> dispatched (removeFromCart s cid net p) = []
    \<and> requests (removeFromCart s cid net p) = []
    \<and> alerts (removeFromCart s cid net p) = []"
proof -
  from assms have "find (\<lambda>item. productId item = p) (items s) = None"
    by (simp add: find_None_iff)
  then have "removeFromCart s cid net p = []"
    by (simp add: removeFromCart_def)
  then show ?thesis by (simp add: run_Nil)
qed

theorem removeFromCart_absent_is_noop_witness:
  "map productId (items demo_state) = [1]
   \<and> removeFromCart demo_state ''cart-abc123-999'' failing_net 2 = []
   \<and> run demo_state (removeFromCart demo_state ''cart-abc123-999'' failing_net 2) = demo_state
   \<and> requests (removeFromCart demo_state ''cart-abc123-999'' failing_net 2) = []"
proof -
  have ids: "map productId (items demo_state) = [1]"
    by (simp add: demo_state_def demo_item_def)
  have h: "\<forall>item \<in> set (items demo_state). productId item \<noteq> 2"
    by (simp add: demo_state_def demo_item_def)
  show ?thesis
    using ids removeFromCart_absent_is_noop [OF h, of "''cart-abc123-999''" failing_net]
    by (simp add: run_Nil)
qed



text \<open>
  C6: \<open>canAddToCart(product, k)\<close> holds exactly when \<open>k <= availableStock(product)\<close>, which for
  a numeric available stock \<open>n\<close> is \<open>k \<le> n\<close>; the available stock is \<open>available_stock\<close> unless
  that is \<open>undefined\<close>, and then \<open>stock\<close>; an omitted quantity counts as 1.
\<close>

theorem canAddToCart_iff_le_available:
  "canAddToCart p (Some k) = js_le (Val k) (getAvailableStock p)
   \<and> (getAvailableStock p = Val n \<longrightarrow> (canAddToCart p (Some k) \<longleftrightarrow> k \<le> n))
   \<and> getAvailableStock p = (if available_stock p = Undefined then stock p else available_stock p)
   \<and> canAddToCart p None = canAddToCart p (Some 1)"
  by (simp add: canAddToCart_def getAvailableStock_def js_le_def js_ge_def split: option.splits)

theorem canAddToCart_iff_le_available_witness:
  "getAvailableStock demo_product = Val 5
   \<and> canAddToCart demo_product (Some 5) \<and> \<not> canAddToCart demo_product (Some 6)
   \<and> getAvailableStock (demo_product\<lparr>available_stock := Undefined, stock := Val 3\<rparr>) = Val 3
   \<and> canAddToCart (demo_product\<lparr>available_stock := Undefined, stock := Val 3\<rparr>) (Some 3)
   \<and> \<not> canAddToCart (demo_product\<lparr>available_stock := Undefined, stock := Val 3\<rparr>) (Some 4)"
proof -
  have a: "getAvailableStock demo_product = Val 5"
    by (simp add: getAvailableStock_def demo_product_def)
  have b: "getAvailableStock (demo_product\<lparr>available_stock := Undefined, stock := Val 3\<rparr>) = Val 3"
    by (simp add: getAvailableStock_def demo_product_def)
  show ?thesis
    using a b
      canAddToCart_iff_le_available [of demo_product 5 5]
      canAddToCart_iff_le_available [of demo_product 6 5]
      canAddToCart_iff_le_available [of "demo_product\<lparr>available_stock := Undefined, stock := Val 3\<rparr>" 3 3]
      canAddToCart_iff_le_available [of "demo_product\<lparr>available_stock := Undefined, stock := Val 3\<rparr>" 4 3]
    by (simp add: js_le_def)
qed

text \<open>
  C7: \<open>SET_CART\<close> and \<open>SET_LOADING\<close> are idempotent: applying the same action twice gives
  the state that applying it once gives.
\<close>

theorem SET_CART_SET_LOADING_idempotent:
  "cartReducer (cartReducer s (SET_CART payload_items)) (SET_CART payload_items)
     = cartReducer s (SET_CART payload_items)
   \<and> cartReducer (cartReducer s (SET_LOADING b)) (SET_LOADING b) = cartReducer s (SET_LOADING b)"
  by simp

text \<open>
  C8: when the storage holds no identifier (no entry, or the empty string), \<open>getCartId\<close>
  builds \<open>cart-\<close>, nine characters of the random string, \<open>-\<close> and the time in decimal,
  stores it and returns it; a stored identifier is returned with the storage untouched; and
  a second call, whatever the random string and the time then are, returns the identifier of
  the first call and leaves the storage as the first call left it.
\<close>

theorem getCartId_stable:
  "(ls ''cart-session-id'' = None \<or> ls ''cart-session-id'' = Some [] \<longrightarrow>
      getCartId ls rnd now =
        (ls(''cart-session-id'' \<mapsto> ''cart-'' @ take 9 (drop 2 rnd) @ ''-'' @ dec_str now),
         ''cart-'' @ take 9 (drop 2 rnd) @ ''-'' @ dec_str now))
   \<and> (\<forall>v. ls ''cart-session-id'' = Some v \<and> v \<noteq> [] \<longrightarrow> getCartId ls rnd now = (ls, v))
   \<and> getCartId (fst (getCartId ls rnd now)) rnd' now' =
       (fst (getCartId ls rnd now), snd (getCartId ls rnd now))"
proof -
  have generated: "getCartId ls rnd now =
        (ls(''cart-session-id'' \<mapsto> new_cart_id rnd now), new_cart_id rnd now)"
    if "ls ''cart-session-id'' = None \<or> ls ''cart-session-id'' = Some []"
    using that by (auto simp: getCartId_def Let_def)
  have stored: "getCartId ls rnd now = (ls, v)"
    if "ls ''cart-session-id'' = Some v" and "v \<noteq> []" for v
    using that by (simp add: getCartId_def Let_def)
  have second: "getCartId (fst (getCartId ls rnd now)) rnd' now' =
       (fst (getCartId ls rnd now), snd (getCartId ls rnd now))"
  proof (cases "ls ''cart-session-id'' = None \<or> ls ''cart-session-id'' = Some []")
    case True
    then have g: "getCartId ls rnd now =
        (ls(''cart-session-id'' \<mapsto> new_cart_id rnd now), new_cart_id rnd now)"
      by (rule generated)
    show ?thesis
      unfolding g by (simp add: getCartId_def Let_def new_cart_id_not_empty)
  next
    case False
    then obtain v where v: "ls ''cart-session-id'' = Some v" "v \<noteq> []"
      by auto
    then have g: "getCartId ls rnd now = (ls, v)"
      by (rule stored)
    show ?thesis
      unfolding g using v by (simp add: getCartId_def Let_def)
  qed
  from generated stored second show ?thesis
    by (simp add: new_cart_id_def)
qed

theorem getCartId_stable_witness:
  "Map.empty ''cart-session-id'' = (None :: string option)
   \<and> snd (getCartId Map.empty ''0.k3j2abcdefghij'' 999) = ''cart-k3j2abcde-999''
   \<and> fst (getCartId Map.empty ''0.k3j2abcdefghij'' 999) ''cart-session-id''
       = Some ''cart-k3j2abcde-999''
   \<and> [''cart-session-id'' \<mapsto> ''cart-abc123-999''] ''cart-session-id'' = Some ''cart-abc123-999''
   \<and> snd (getCartId [''cart-session-id'' \<mapsto> ''cart-abc123-999''] ''0.zzzzzzzzzzzz'' 5)
       = ''cart-abc123-999''
   \<and> snd (getCartId (fst (getCartId Map.empty ''0.k3j2abcdefghij'' 999)) ''0.zzzzzzzzzzzz'' 5)
       = ''cart-k3j2abcde-999''"
proof -
  note fresh = getCartId_stable [of Map.empty "''0.k3j2abcdefghij''" 999 "''0.zzzzzzzzzzzz''" 5]
  note kept = getCartId_stable [of "[''cart-session-id'' \<mapsto> ''cart-abc123-999'']"
      "''0.zzzzzzzzzzzz''" 5]
  have f: "Map.empty ''cart-session-id'' = (None :: string option)"
    by simp
  have g: "[''cart-session-id'' \<mapsto> ''cart-abc123-999''] ''cart-session-id''
       = Some ''cart-abc123-999''"
    by simp
  have id_eq: "''cart-'' @ take 9 (drop 2 ''0.k3j2abcdefghij'') @ ''-'' @ dec_str 999
       = ''cart-k3j2abcde-999''"
    by (simp add: dec_str_999)
  from fresh have first:
    "getCartId Map.empty ''0.k3j2abcdefghij'' 999 =
       ([''cart-session-id'' \<mapsto> ''cart-k3j2abcde-999''], ''cart-k3j2abcde-999'')"
    unfolding id_eq by simp
  note second_call = fresh [THEN conjunct2, THEN conjunct2]
  have
    "snd (getCartId (fst (getCartId Map.empty ''0.k3j2abcdefghij'' 999)) ''0.zzzzzzzzzzzz'' 5)
       = snd (getCartId Map.empty ''0.k3j2abcdefghij'' 999)"
    by (simp only: second_call snd_conv)
  also have "\<dots> = ''cart-k3j2abcde-999''"
    by (simp add: first)
  finally have again:
    "snd (getCartId (fst (getCartId Map.empty ''0.k3j2abcdefghij'' 999)) ''0.zzzzzzzzzzzz'' 5)
       = ''cart-k3j2abcde-999''" .
  from kept have stored:
    "snd (getCartId [''cart-session-id'' \<mapsto> ''cart-abc123-999''] ''0.zzzzzzzzzzzz'' 5)
       = ''cart-abc123-999''"
    by simp
  have s1: "snd (getCartId Map.empty ''0.k3j2abcdefghij'' 999) = ''cart-k3j2abcde-999''"
    by (simp add: first)
  have s2: "fst (getCartId Map.empty ''0.k3j2abcdefghij'' 999) ''cart-session-id''
       = Some ''cart-k3j2abcde-999''"
    by (simp add: first)
  show ?thesis
    by (intro conjI f s1 s2 g stored again)
qed

text \<open>
  C9: a \<open>SET_CART\<close> whose payload has no \<open>items\<close>, or \<open>undefined\<close> or \<open>null\<close> there, yields a
  state whose items are the empty list, as a payload with an empty array does.
\<close>

theorem SET_CART_falsy_items_is_empty:
  "items (cartReducer s (SET_CART Undefined)) = []
   \<and> items (cartReducer s (SET_CART Null)) = []
   \<and> cartReducer s (SET_CART Undefined) = cartReducer s (SET_CART (Val []))
   \<and> cartReducer s (SET_CART Null) = cartReducer s (SET_CART (Val []))"
  by simp

text \<open>
  C10: for a product whose \<open>available_stock\<close> is \<open>null\<close>, \<open>getAvailableStock\<close> returns \<open>null\<close>
  and not the stock, and \<open>canAddToCart\<close> is false for every quantity of at least 1, also
  for the default quantity.
\<close>

theorem null_available_stock_blocks_adding:
  assumes "available_stock p = Null"
  shows "getAvailableStock p = Null
    \<and> (\<forall>k\<ge>1. \<not> canAddToCart p (Some k))
    \<and> \<not> canAddToCart p None"
  using assms by (simp add: getAvailableStock_def canAddToCart_def js_ge_def)

theorem null_available_stock_blocks_adding_witness:
  "available_stock (demo_product\<lparr>available_stock := Null\<rparr>) = Null
   \<and> stock (demo_product\<lparr>available_stock := Null\<rparr>) = Val 5
   \<and> getAvailableStock (demo_product\<lparr>available_stock := Null\<rparr>) = Null
   \<and> \<not> canAddToCart (demo_product\<lparr>available_stock := Null\<rparr>) (Some 1)"
proof -
  have h: "available_stock (demo_product\<lparr>available_stock := Null\<rparr>) = Null" by simp
  have st: "stock (demo_product\<lparr>available_stock := Null\<rparr>) = Val 5"
    by (simp add: demo_product_def)
  show ?thesis
    using h st null_available_stock_blocks_adding [OF h] by simp
qed

end
